theory Spec2Isabelle
  imports
    Main
    "HOL-Library.Word"
    "HOL-Library.RBT"
    "HOL-Library.Product_Lexorder"
    "HOL-Library.List_Lexorder"
    "HOL-Library.Char_ord"
begin

section \<open>SoapyDNSSDAvahi.cpp: the DNS-SD session of SoapyRemote\<close>

text \<open>
  A shallow embedding of \<^verbatim>\<open>src/common/SoapyDNSSDAvahi.cpp\<close>. The Avahi client library
  and the C/C++ runtime are not part of the file: what they return is an input of the
  model (a field of an environment record, or an argument carried by a callback event).
  The members of \<^verbatim>\<open>struct SoapyDNSSDImpl\<close> are the fields of one record; the functions
  of the file take the record and return it updated.
\<close>

subsection \<open>Constants of the headers\<close>

text \<open>
  \<^verbatim>\<open>SOAPY_REMOTE_IPVER_*\<close> come from \<^verbatim>\<open>SoapyRemoteDefs.hpp\<close> and \<^verbatim>\<open>AVAHI_PROTO_*\<close>
  from \<^verbatim>\<open>avahi-common/address.h\<close>; neither header is part of the file, so their values
  are a parameter of every function that names them. Both \<^verbatim>\<open>AvahiProtocol\<close> and
  \<^verbatim>\<open>AvahiIfIndex\<close> are C \<^verbatim>\<open>int\<close>.
\<close>

record Defs =
  SOAPY_REMOTE_IPVER_UNSPEC :: int
  SOAPY_REMOTE_IPVER_INET :: int
  SOAPY_REMOTE_IPVER_INET6 :: int
  AVAHI_PROTO_UNSPEC :: int
  AVAHI_PROTO_INET :: int
  AVAHI_PROTO_INET6 :: int

text \<open>The three constants of each family are pairwise different.\<close>

definition defs_ok :: "Defs \<Rightarrow> bool" where
  "defs_ok d \<longleftrightarrow>
     distinct [SOAPY_REMOTE_IPVER_UNSPEC d, SOAPY_REMOTE_IPVER_INET d, SOAPY_REMOTE_IPVER_INET6 d] \<and>
     distinct [AVAHI_PROTO_UNSPEC d, AVAHI_PROTO_INET d, AVAHI_PROTO_INET6 d]"

text \<open>One assignment of the constants, used where a theorem is run on a concrete input.\<close>

definition example_defs :: Defs where
  "example_defs = \<lparr>SOAPY_REMOTE_IPVER_UNSPEC = 0, SOAPY_REMOTE_IPVER_INET = 4,
     SOAPY_REMOTE_IPVER_INET6 = 6, AVAHI_PROTO_UNSPEC = - 1, AVAHI_PROTO_INET = 0,
     AVAHI_PROTO_INET6 = 1\<rparr>"

definition ipVerToAvahiProtocol :: "Defs \<Rightarrow> int \<Rightarrow> int" where
  "ipVerToAvahiProtocol d ipVer =
     (let protocol = AVAHI_PROTO_UNSPEC d;
          protocol = (if ipVer = SOAPY_REMOTE_IPVER_UNSPEC d then AVAHI_PROTO_UNSPEC d else protocol);
          protocol = (if ipVer = SOAPY_REMOTE_IPVER_INET d then AVAHI_PROTO_INET d else protocol);
          protocol = (if ipVer = SOAPY_REMOTE_IPVER_INET6 d then AVAHI_PROTO_INET6 d else protocol)
      in protocol)"

definition avahiProtocolToIpVer :: "Defs \<Rightarrow> int \<Rightarrow> int" where
  "avahiProtocolToIpVer d protocol =
     (let ipVer = SOAPY_REMOTE_IPVER_UNSPEC d;
          ipVer = (if protocol = AVAHI_PROTO_UNSPEC d then SOAPY_REMOTE_IPVER_UNSPEC d else ipVer);
          ipVer = (if protocol = AVAHI_PROTO_INET d then SOAPY_REMOTE_IPVER_INET d else ipVer);
          ipVer = (if protocol = AVAHI_PROTO_INET6 d then SOAPY_REMOTE_IPVER_INET6 d else ipVer)
      in ipVer)"

subsection \<open>The C and C++ runtime\<close>

text \<open>\<^verbatim>\<open>std::string::c_str()\<close> handed to a C function: the bytes before the first NUL.\<close>

definition c_str :: "string \<Rightarrow> string" where
  "c_str s = takeWhile (\<lambda>c. c \<noteq> CHR 0x00) s"

definition isspace :: "char \<Rightarrow> bool" where
  "isspace c \<longleftrightarrow> c \<in> {CHR '' '', CHR 0x09, CHR 0x0A, CHR 0x0B, CHR 0x0C, CHR 0x0D}"

definition isdigit :: "char \<Rightarrow> bool" where
  "isdigit c \<longleftrightarrow> (48::nat) \<le> of_char c \<and> of_char c \<le> (57::nat)"

text \<open>
  \<^verbatim>\<open>atoi\<close> as the C library defines it, \<^verbatim>\<open>(int) strtol(s, NULL, 10)\<close> with a \<^verbatim>\<open>long\<close> of
  64 bits and an \<^verbatim>\<open>int\<close> of 32: white space, an optional sign, then the longest run of
  decimal digits, 0 when there is none. A value outside \<^verbatim>\<open>long\<close> saturates at
  \<^verbatim>\<open>LONG_MIN\<close> or \<^verbatim>\<open>LONG_MAX\<close>, and the conversion to \<^verbatim>\<open>int\<close> keeps the low 32 bits.
\<close>

fun atoi_digits :: "int \<Rightarrow> string \<Rightarrow> int" where
  "atoi_digits acc [] = acc"
| "atoi_digits acc (c # cs) =
     (if isdigit c then atoi_digits (10 * acc + (int (of_char c) - 48)) cs else acc)"

definition strtol :: "string \<Rightarrow> int" where
  "strtol s =
     (let v = (case dropWhile isspace s of
                 [] \<Rightarrow> 0
               | c # cs \<Rightarrow>
                   if c = CHR ''-'' then - atoi_digits 0 cs
                   else if c = CHR ''+'' then atoi_digits 0 cs
                   else atoi_digits 0 (c # cs))
      in max (- (2 ^ 63)) (min (2 ^ 63 - 1) v))"

definition atoi :: "string \<Rightarrow> int" where
  "atoi s = sint (word_of_int (strtol s) :: 32 word)"

text \<open>
  \<^verbatim>\<open>std::to_string\<close> of an \<^verbatim>\<open>int\<close>: decimal, with a minus sign below zero.
  \<open>decimal\<close> prints a number that is not negative.
\<close>

function decimal :: "int \<Rightarrow> string" where
  "decimal n =
     (if n < 10 then [char_of (48 + n)]
      else decimal (n div 10) @ [char_of (48 + n mod 10)])"
  by pat_completeness auto
termination
  by (relation "measure nat") auto

declare decimal.simps [simp del]

definition to_string :: "int \<Rightarrow> string" where
  "to_string i = (if i < 0 then CHR ''-'' # decimal (- i) else decimal i)"

text \<open>
  Modelled from the spec: \<^verbatim>\<open>SoapyURL(scheme, node, service).toString()\<close> is defined in
  \<^verbatim>\<open>SoapyURLUtils.cpp\<close>, which is not part of the file. The spec gives the form
  \<^verbatim>\<open>tcp://<addr>:<port>\<close>: the scheme, \<^verbatim>\<open>://\<close>, the node, a colon and the service.
\<close>

definition SoapyURL_toString :: "string \<Rightarrow> string \<Rightarrow> string \<Rightarrow> string" where
  "SoapyURL_toString scheme node service = scheme @ ''://'' @ node @ '':'' @ service"

subsection \<open>Logging\<close>

datatype LogLevel = SOAPY_SDR_ERROR | SOAPY_SDR_INFO | SOAPY_SDR_DEBUG

text \<open>
  A call of \<^verbatim>\<open>SoapySDR::logf\<close> is recorded with its level, its format string and its
  arguments; \<^verbatim>\<open>avahi_strerror(e)\<close> is recorded as the code \<open>e\<close>.
\<close>

datatype LogArg = ArgStr string | ArgInt int | ArgStrerror int

type_synonym LogEntry = "LogLevel \<times> string \<times> LogArg list"

subsection \<open>The session\<close>

datatype AvahiClientState =
  AVAHI_CLIENT_S_REGISTERING | AVAHI_CLIENT_S_RUNNING | AVAHI_CLIENT_S_COLLISION
| AVAHI_CLIENT_FAILURE | AVAHI_CLIENT_CONNECTING

text \<open>What the getters of the library answer for a client object.\<close>

record AvahiClient =
  client_state :: AvahiClientState
  client_errno :: int
  version_string :: string
  host_name :: string
  domain_name :: string
  host_name_fqdn :: string

text \<open>A service handed to \<^verbatim>\<open>avahi_entry_group_add_service_strlst\<close>.\<close>

record Service =
  svc_protocol :: int
  svc_name :: string
  svc_type :: string
  svc_port :: "16 word"
  svc_txt :: "(string \<times> string) list"

text \<open>An entry group: the services added to it, and whether it was committed.\<close>

record AvahiEntryGroup =
  services :: "Service list"
  committed :: bool

type_synonym ResultKey = "int \<times> int \<times> string \<times> string \<times> string"
type_synonym ResultValue = "string \<times> int \<times> string"

text \<open>
  \<^verbatim>\<open>struct SoapyDNSSDImpl\<close>. \<^verbatim>\<open>size_t\<close> is taken as 64 bits wide. \<^verbatim>\<open>std::map\<close> is a
  red-black tree ordered by \<^verbatim>\<open>operator<\<close> of the key tuple, which is the lexicographic
  order of the components (strings by bytes). The poll object and the browser are opaque
  handles. Two fields are not members of the struct: \<open>threads\<close> counts the
  \<^verbatim>\<open>std::thread\<close> objects constructed so far (\<open>pollThread\<close> holds the index of one of
  them), and \<open>logged\<close> is the output of the logger, oldest entry first.
\<close>

record SoapyDNSSDImpl =
  simplePoll :: "nat option"
  pollThread :: "nat option"
  client :: "AvahiClient option"
  group :: "AvahiEntryGroup option"
  browser :: "nat option"
  resolversInFlight :: "64 word"
  browseComplete :: bool
  results :: "(ResultKey, ResultValue) rbt"
  threads :: nat
  logged :: "LogEntry list"

definition logf :: "LogLevel \<Rightarrow> string \<Rightarrow> LogArg list \<Rightarrow> SoapyDNSSDImpl \<Rightarrow> SoapyDNSSDImpl" where
  "logf level fmt args s = s\<lparr>logged := logged s @ [(level, fmt, args)]\<rparr>"

text \<open>\<^verbatim>\<open>new std::thread(&avahi_simple_poll_loop, simplePoll)\<close>, stored in \<open>pollThread\<close>.\<close>

definition start_poll_thread :: "SoapyDNSSDImpl \<Rightarrow> SoapyDNSSDImpl" where
  "start_poll_thread s = s\<lparr>pollThread := Some (threads s), threads := Suc (threads s)\<rparr>"

text \<open>
  A library function handed a null client does not return (an assertion of the library,
  or a null dereference); the inline pump of \<open>getServerURLs\<close> may never finish.
\<close>

datatype fault = NullClient | PumpNeverCompletes

text \<open>
  The constructor. \<open>poll_new\<close> is what \<^verbatim>\<open>avahi_simple_poll_new\<close> returns, \<open>client_new\<close>
  and \<open>error\<close> what \<^verbatim>\<open>avahi_client_new\<close> returns and stores.
\<close>

definition SoapyDNSSDImpl_init :: SoapyDNSSDImpl where
  "SoapyDNSSDImpl_init = \<lparr>simplePoll = None, pollThread = None, client = None, group = None,
     browser = None, resolversInFlight = 0, browseComplete = False, results = RBT.empty,
     threads = 0, logged = []\<rparr>"

definition SoapyDNSSDImpl_ctor :: "nat option \<Rightarrow> AvahiClient option \<Rightarrow> int \<Rightarrow> SoapyDNSSDImpl" where
  "SoapyDNSSDImpl_ctor poll_new client_new error =
     (let s = SoapyDNSSDImpl_init\<lparr>simplePoll := poll_new\<rparr> in
      if simplePoll s = None
      then logf SOAPY_SDR_ERROR ''avahi_simple_poll_new() failed'' [] s
      else
        let s = s\<lparr>client := client_new\<rparr> in
        if client s = None \<or> error \<noteq> 0
        then logf SOAPY_SDR_ERROR ''avahi_client_new() failed: %s'' [ArgStrerror error] s
        else s)"

subsection \<open>The facade: \<^verbatim>\<open>printInfo\<close>, \<^verbatim>\<open>status\<close>, \<^verbatim>\<open>registerService\<close>\<close>

definition printInfo :: "SoapyDNSSDImpl \<Rightarrow> fault + SoapyDNSSDImpl" where
  "printInfo s =
     (case client s of
        None \<Rightarrow> Inl NullClient
      | Some c \<Rightarrow>
          Inr (logf SOAPY_SDR_INFO ''Avahi FQDN:     %s'' [ArgStr (host_name_fqdn c)]
              (logf SOAPY_SDR_INFO ''Avahi domain:   %s'' [ArgStr (domain_name c)]
              (logf SOAPY_SDR_INFO ''Avahi hostname: %s'' [ArgStr (host_name c)]
              (logf SOAPY_SDR_INFO ''Avahi version:  %s'' [ArgStr (version_string c)] s)))))"

definition status :: "SoapyDNSSDImpl \<Rightarrow> fault + bool" where
  "status s =
     (case client s of
        None \<Rightarrow> Inl NullClient
      | Some c \<Rightarrow> Inr (client_state c \<noteq> AVAHI_CLIENT_FAILURE))"

text \<open>
  What the library answers to the three calls of \<open>registerService\<close>:
  \<^verbatim>\<open>avahi_entry_group_new\<close> (a group or null), \<^verbatim>\<open>avahi_entry_group_add_service_strlst\<close>
  (a return code that may depend on the service) and \<^verbatim>\<open>avahi_entry_group_commit\<close>.
\<close>

record PublishEnv =
  entry_group_new :: bool
  add_service :: "Service \<Rightarrow> int"
  commit :: int

definition SOAPY_REMOTE_DNSSD_NAME :: string where
  "SOAPY_REMOTE_DNSSD_NAME = ''SoapyRemote''"

definition SOAPY_REMOTE_DNSSD_TYPE :: string where
  "SOAPY_REMOTE_DNSSD_TYPE = ''_soapy._tcp''"

text \<open>
  The service that \<open>registerService\<close> builds: the name is printed into a buffer of 1024
  bytes (at most 1023 characters are kept), the port is \<^verbatim>\<open>atoi\<close> of the string converted
  to the \<^verbatim>\<open>uint16_t\<close> parameter, the TXT list is the single pair \<^verbatim>\<open>uuid=<uuid>\<close>.
\<close>

definition service_of :: "Defs \<Rightarrow> AvahiClient \<Rightarrow> string \<Rightarrow> string \<Rightarrow> int \<Rightarrow> Service" where
  "service_of d c uuid service ipVer =
     \<lparr>svc_protocol = ipVerToAvahiProtocol d ipVer,
      svc_name = take 1023 (SOAPY_REMOTE_DNSSD_NAME @ '' @ '' @ host_name c),
      svc_type = SOAPY_REMOTE_DNSSD_TYPE,
      svc_port = word_of_int (atoi (c_str service)),
      svc_txt = [(''uuid'', c_str uuid)]\<rparr>"

definition registerService ::
  "Defs \<Rightarrow> PublishEnv \<Rightarrow> string \<Rightarrow> string \<Rightarrow> int \<Rightarrow> SoapyDNSSDImpl \<Rightarrow> fault + SoapyDNSSDImpl" where
  "registerService d env uuid service ipVer s =
     (case client s of
        None \<Rightarrow> Inl NullClient
      | Some c \<Rightarrow>
          if \<not> entry_group_new env
          then Inr (logf SOAPY_SDR_ERROR ''avahi_entry_group_new() failed'' [] (s\<lparr>group := None\<rparr>))
          else
            let svc = service_of d c uuid service ipVer;
                ret = add_service env svc
            in
              if ret \<noteq> 0
              then Inr (logf SOAPY_SDR_ERROR ''avahi_entry_group_add_service() failed: %s''
                     [ArgStrerror ret] (s\<lparr>group := Some \<lparr>services = [], committed = False\<rparr>\<rparr>))
              else
                let ret = commit env in
                if ret \<noteq> 0
                then Inr (logf SOAPY_SDR_ERROR ''avahi_entry_group_commit() failed: %s''
                       [ArgStrerror ret] (s\<lparr>group := Some \<lparr>services = [svc], committed = False\<rparr>\<rparr>))
                else Inr (start_poll_thread
                       (s\<lparr>group := Some \<lparr>services = [svc], committed = True\<rparr>\<rparr>)))"

subsection \<open>The result store\<close>

definition add_result ::
  "Defs \<Rightarrow> int \<Rightarrow> int \<Rightarrow> string \<Rightarrow> string \<Rightarrow> string \<Rightarrow> string \<Rightarrow> string \<Rightarrow> 16 word
     \<Rightarrow> SoapyDNSSDImpl \<Rightarrow> SoapyDNSSDImpl" where
  "add_result d interface protocol name type domain uuid host port s =
     (if uuid = [] then s
      else
        let ipVer = avahiProtocolToIpVer d protocol;
            addr = (if protocol = AVAHI_PROTO_INET6 d
                    then host @ ''%'' @ to_string interface else host);
            serverURL = SoapyURL_toString ''tcp'' addr (to_string (uint port));
            s = logf SOAPY_SDR_DEBUG ''SoapyDNSSD discovered %s [%s] IPv%d''
                  [ArgStr (c_str serverURL), ArgStr (c_str uuid), ArgInt ipVer] s;
            key = (interface, protocol, name, type, domain);
            val = (uuid, ipVer, serverURL)
        in s\<lparr>results := RBT.insert key val (results s)\<rparr>)"

definition remove_result ::
  "int \<Rightarrow> int \<Rightarrow> string \<Rightarrow> string \<Rightarrow> string \<Rightarrow> SoapyDNSSDImpl \<Rightarrow> SoapyDNSSDImpl" where
  "remove_result interface protocol name type domain s =
     (let key = (interface, protocol, name, type, domain) in
      case RBT.lookup (results s) key of
        None \<Rightarrow> s
      | Some (uuid, ipVer, serverURL) \<Rightarrow>
          logf SOAPY_SDR_DEBUG ''SoapyDNSSD removed %s [%s] IPv%d''
            [ArgStr (c_str serverURL), ArgStr (c_str uuid), ArgInt ipVer]
            (s\<lparr>results := RBT.delete key (results s)\<rparr>))"

subsection \<open>The callbacks\<close>

datatype AvahiResolverEvent = AVAHI_RESOLVER_FOUND | AVAHI_RESOLVER_FAILURE

datatype AvahiBrowserEvent =
  AVAHI_BROWSER_NEW | AVAHI_BROWSER_REMOVE | AVAHI_BROWSER_CACHE_EXHAUSTED
| AVAHI_BROWSER_ALL_FOR_NOW | AVAHI_BROWSER_FAILURE

text \<open>
  A node of the TXT list is given by what \<^verbatim>\<open>avahi_string_list_get_pair\<close> answers for it:
  the key and the value, each possibly null. The loop of \<open>resolverCallback\<close> skips a
  node with a null key or value and stores every other pair in a \<^verbatim>\<open>std::map\<close>, a later
  pair replacing an earlier one with the same key (the key is read as a C string).
\<close>

type_synonym AvahiStringList = "(string option \<times> string option) list"

fun txt_fields :: "AvahiStringList \<Rightarrow> (string \<rightharpoonup> string) \<Rightarrow> (string \<rightharpoonup> string)" where
  "txt_fields [] flds = flds"
| "txt_fields ((Some key, Some val) # txt) flds = txt_fields txt (flds(c_str key \<mapsto> val))"
| "txt_fields (_ # txt) flds = txt_fields txt flds"

text \<open>\<^verbatim>\<open>fields["uuid"]\<close>: the stored string, or the empty string that the lookup inserts.\<close>

definition field_or_empty :: "(string \<rightharpoonup> string) \<Rightarrow> string \<Rightarrow> string" where
  "field_or_empty flds k = (case flds k of None \<Rightarrow> [] | Some v \<Rightarrow> v)"

text \<open>
  \<open>address\<close> is the text that \<^verbatim>\<open>avahi_address_snprint\<close> prints for a non-null address,
  and \<open>None\<close> for a null one.
\<close>

definition resolverCallback ::
  "Defs \<Rightarrow> int \<Rightarrow> int \<Rightarrow> AvahiResolverEvent \<Rightarrow> string \<Rightarrow> string \<Rightarrow> string \<Rightarrow> string option
     \<Rightarrow> 16 word \<Rightarrow> AvahiStringList \<Rightarrow> SoapyDNSSDImpl \<Rightarrow> SoapyDNSSDImpl" where
  "resolverCallback d interface protocol event name type domain address port txt s =
     (let s = (case address of
                 Some addrStr \<Rightarrow>
                   if event = AVAHI_RESOLVER_FOUND
                   then add_result d interface protocol name type domain
                          (field_or_empty (txt_fields txt Map.empty) ''uuid'') addrStr port s
                   else s
               | None \<Rightarrow> s)
      in s\<lparr>resolversInFlight := resolversInFlight s - 1\<rparr>)"

text \<open>
  \<open>resolver_new\<close> tells whether \<^verbatim>\<open>avahi_service_resolver_new\<close> returned a resolver,
  \<open>errno\<close> is what \<^verbatim>\<open>avahi_client_errno\<close> answers during the callback.
\<close>

definition browserCallback ::
  "int \<Rightarrow> int \<Rightarrow> AvahiBrowserEvent \<Rightarrow> string \<Rightarrow> string \<Rightarrow> string \<Rightarrow> bool \<Rightarrow> int
     \<Rightarrow> SoapyDNSSDImpl \<Rightarrow> SoapyDNSSDImpl" where
  "browserCallback interface protocol event name type domain resolver_new errno s =
     (case event of
        AVAHI_BROWSER_FAILURE \<Rightarrow>
          (logf SOAPY_SDR_ERROR ''Avahi browser error: %s'' [ArgStrerror errno] s)
            \<lparr>resolversInFlight := 0, browseComplete := True\<rparr>
      | AVAHI_BROWSER_NEW \<Rightarrow>
          if \<not> resolver_new
          then logf SOAPY_SDR_ERROR ''avahi_service_resolver_new() failed: %s'' [ArgStrerror errno] s
          else s\<lparr>resolversInFlight := resolversInFlight s + 1\<rparr>
      | AVAHI_BROWSER_REMOVE \<Rightarrow> remove_result interface protocol name type domain s
      | AVAHI_BROWSER_ALL_FOR_NOW \<Rightarrow> s\<lparr>browseComplete := True\<rparr>
      | AVAHI_BROWSER_CACHE_EXHAUSTED \<Rightarrow> s\<lparr>browseComplete := True\<rparr>)"

text \<open>A callback that the poll loop dispatches, with the arguments the library passes.\<close>

datatype Callback =
  Browser int int AvahiBrowserEvent string string string bool int
| Resolver int int AvahiResolverEvent string string string "string option" "16 word" AvahiStringList

fun dispatch :: "Defs \<Rightarrow> Callback \<Rightarrow> SoapyDNSSDImpl \<Rightarrow> SoapyDNSSDImpl" where
  "dispatch d (Browser interface protocol event name type domain resolver_new errno) s =
     browserCallback interface protocol event name type domain resolver_new errno s"
| "dispatch d (Resolver interface protocol event name type domain address port txt) s =
     resolverCallback d interface protocol event name type domain address port txt s"

text \<open>The callbacks of a list run in order, as the single poll loop runs them.\<close>

definition run_callbacks :: "Defs \<Rightarrow> Callback list \<Rightarrow> SoapyDNSSDImpl \<Rightarrow> SoapyDNSSDImpl" where
  "run_callbacks d cbs s = fold (dispatch d) cbs s"

subsection \<open>\<open>getServerURLs\<close>\<close>

type_synonym Snapshot = "(string, (int, string) rbt) rbt"

text \<open>\<^verbatim>\<open>uuidToUrl[uuid][ipVer] = serverURL\<close> for one entry of the result map.\<close>

definition snapshot_entry :: "ResultKey \<times> ResultValue \<Rightarrow> Snapshot \<Rightarrow> Snapshot" where
  "snapshot_entry entry uuidToUrl =
     (case entry of (key, uuid, ipVer, serverURL) \<Rightarrow>
        let inner = (case RBT.lookup uuidToUrl uuid of None \<Rightarrow> RBT.empty | Some m \<Rightarrow> m)
        in RBT.insert uuid (RBT.insert ipVer serverURL inner) uuidToUrl)"

text \<open>The loop at the label \<^verbatim>\<open>getResults\<close>: the entries of the map in ascending key order.\<close>

definition getResults :: "SoapyDNSSDImpl \<Rightarrow> Snapshot" where
  "getResults s = fold snapshot_entry (RBT.entries (results s)) RBT.empty"

text \<open>\<^verbatim>\<open>snapshot[uuid][ipVer]\<close> read without inserting.\<close>

definition snapshot_at :: "Snapshot \<Rightarrow> string \<Rightarrow> int \<Rightarrow> string option" where
  "snapshot_at m uuid ipVer =
     (case RBT.lookup m uuid of None \<Rightarrow> None | Some inner \<Rightarrow> RBT.lookup inner ipVer)"

text \<open>
  The inline pump. Each call of \<^verbatim>\<open>avahi_simple_poll_iterate\<close> dispatches a list of
  callbacks; \<open>iterations\<close> lists what the successive calls dispatch. The condition of the
  \<^verbatim>\<open>while\<close> loop is tested before each call. When the condition still holds and the
  library has nothing more to deliver, the loop never ends: that is \<open>None\<close>.
\<close>

fun pump :: "Defs \<Rightarrow> Callback list list \<Rightarrow> SoapyDNSSDImpl \<Rightarrow> SoapyDNSSDImpl option" where
  "pump d [] s =
     (if \<not> browseComplete s \<or> resolversInFlight s \<noteq> 0 then None else Some s)"
| "pump d (cbs # iterations) s =
     (if \<not> browseComplete s \<or> resolversInFlight s \<noteq> 0
      then pump d iterations (run_callbacks d cbs s)
      else Some s)"

text \<open>
  What the library answers during \<open>getServerURLs\<close>: \<^verbatim>\<open>avahi_service_browser_new\<close> for
  the requested protocol (a handle or null), and the callbacks of the inline pump.
\<close>

record BrowseEnv =
  service_browser_new :: "int \<Rightarrow> nat option"
  iterations :: "Callback list list"

definition getServerURLs ::
  "Defs \<Rightarrow> BrowseEnv \<Rightarrow> int \<Rightarrow> SoapyDNSSDImpl \<Rightarrow> fault + Snapshot \<times> SoapyDNSSDImpl" where
  "getServerURLs d env ipVerReq s =
     (if browser s \<noteq> None then Inr (getResults s, s)
      else
        case client s of
          None \<Rightarrow> Inl NullClient
        | Some c \<Rightarrow>
            let s = s\<lparr>browser := service_browser_new env (ipVerToAvahiProtocol d ipVerReq)\<rparr> in
            if browser s = None
            then Inr (RBT.empty,
                   logf SOAPY_SDR_ERROR ''avahi_service_browser_new() failed: %s''
                     [ArgStrerror (client_errno c)] s)
            else
              (case pump d (iterations env) s of
                 None \<Rightarrow> Inl PumpNeverCompletes
               | Some s \<Rightarrow>
                   let s = start_poll_thread s in Inr (getResults s, s)))"

subsection \<open>The resolvers the library holds\<close>

text \<open>
  The library calls \<open>resolverCallback\<close> for a resolver that
  \<^verbatim>\<open>avahi_service_resolver_new\<close> has returned and that has not been freed, and the
  callback frees its resolver. \<open>outstanding n cbs\<close> follows the number of live resolvers
  along a list of callbacks, starting from \<open>n\<close>; it is \<open>None\<close> when the list holds a
  resolver callback at a point where no resolver is live, which the library cannot deliver.
\<close>

fun outstanding :: "nat \<Rightarrow> Callback list \<Rightarrow> nat option" where
  "outstanding n [] = Some n"
| "outstanding n (Browser interface protocol event name type domain resolver_new errno # cbs) =
     outstanding (if event = AVAHI_BROWSER_NEW \<and> resolver_new then Suc n else n) cbs"
| "outstanding n (Resolver interface protocol event name type domain address port txt # cbs) =
     (case n of 0 \<Rightarrow> None | Suc m \<Rightarrow> outstanding m cbs)"

text \<open>The callback is the browser's report of a failure.\<close>

fun browser_failure :: "Callback \<Rightarrow> bool" where
  "browser_failure (Browser interface protocol event name type domain resolver_new errno) =
     (event = AVAHI_BROWSER_FAILURE)"
| "browser_failure (Resolver interface protocol event name type domain address port txt) = False"

subsection \<open>Sessions as sequences of calls\<close>

text \<open>
  What happens to a session after its construction: a call of the facade, or callbacks that
  the background poll thread dispatches between two calls.
\<close>

datatype Call =
  PrintInfo
| Status
| RegisterService PublishEnv string string int
| GetServerURLs BrowseEnv int
| Background "Callback list"

fun apply_call :: "Defs \<Rightarrow> Call \<Rightarrow> SoapyDNSSDImpl \<Rightarrow> fault + SoapyDNSSDImpl" where
  "apply_call d PrintInfo s = printInfo s"
| "apply_call d Status s = (case status s of Inl f \<Rightarrow> Inl f | Inr b \<Rightarrow> Inr s)"
| "apply_call d (RegisterService env uuid service ipVer) s = registerService d env uuid service ipVer s"
| "apply_call d (GetServerURLs env ipVerReq) s =
     (case getServerURLs d env ipVerReq s of Inl f \<Rightarrow> Inl f | Inr (snapshot, s') \<Rightarrow> Inr s')"
| "apply_call d (Background cbs) s = Inr (run_callbacks d cbs s)"

fun run_calls :: "Defs \<Rightarrow> Call list \<Rightarrow> SoapyDNSSDImpl \<Rightarrow> fault + SoapyDNSSDImpl" where
  "run_calls d [] s = Inr s"
| "run_calls d (c # cs) s =
     (case apply_call d c s of Inl f \<Rightarrow> Inl f | Inr s' \<Rightarrow> run_calls d cs s')"

subsection \<open>Notions used in the properties\<close>


text \<open>A session with a browser has a client.\<close>

definition client_before_browser :: "SoapyDNSSDImpl \<Rightarrow> bool" where
  "client_before_browser s \<longleftrightarrow> browser s = None \<or> client s \<noteq> None"

text \<open>The place \<open>(uuid, ipVer)\<close> of the snapshot that an entry writes, with the URL written.\<close>

definition slot_of :: "ResultKey \<times> ResultValue \<Rightarrow> (string \<times> int) \<times> string" where
  "slot_of entry = (case entry of (key, uuid, ipVer, serverURL) \<Rightarrow> ((uuid, ipVer), serverURL))"

text \<open>
  The string has a leading numeric prefix: after optional white space and one optional
  sign it goes on with a decimal digit. (The empty string has none.)
\<close>

definition numeric_prefix :: "string \<Rightarrow> bool" where
  "numeric_prefix service =
     (case dropWhile isspace service of
        [] \<Rightarrow> False
      | c # cs \<Rightarrow>
          if c = CHR ''-'' \<or> c = CHR ''+'' then (case cs of [] \<Rightarrow> False | c' # cs' \<Rightarrow> isdigit c')
          else isdigit c)"

text \<open>The daemon refuses the registration at one of the three calls.\<close>

definition refused :: "PublishEnv \<Rightarrow> Service \<Rightarrow> bool" where
  "refused env svc \<longleftrightarrow> \<not> entry_group_new env \<or> add_service env svc \<noteq> 0 \<or> commit env \<noteq> 0"

subsection \<open>Concrete inputs\<close>

definition example_client :: AvahiClient where
  "example_client = \<lparr>client_state = AVAHI_CLIENT_S_RUNNING, client_errno = 0,
     version_string = ''avahi 0.8'', host_name = ''radio'', domain_name = ''local'',
     host_name_fqdn = ''radio.local''\<rparr>"

text \<open>A client created with \<^verbatim>\<open>AVAHI_CLIENT_NO_FAIL\<close> while no daemon answers.\<close>

definition connecting_client :: AvahiClient where
  "connecting_client = example_client\<lparr>client_state := AVAHI_CLIENT_CONNECTING\<rparr>"

definition failed_client :: AvahiClient where
  "failed_client = example_client\<lparr>client_state := AVAHI_CLIENT_FAILURE\<rparr>"

definition example_session :: SoapyDNSSDImpl where
  "example_session = SoapyDNSSDImpl_ctor (Some 0) (Some example_client) 0"

text \<open>A daemon that accepts every service and every commit.\<close>

definition accepting_publish :: PublishEnv where
  "accepting_publish = \<lparr>entry_group_new = True, add_service = (\<lambda>svc. 0), commit = 0\<rparr>"

text \<open>A browse that reports the end of the cache in its first iteration.\<close>

definition quiet_browse :: BrowseEnv where
  "quiet_browse = \<lparr>service_browser_new = (\<lambda>protocol. Some 1),
     iterations = [[Browser 0 0 AVAHI_BROWSER_ALL_FOR_NOW [] [] [] False 0]]\<rparr>"

text \<open>The same service resolved over IPv6 on the interfaces 3 and 2.\<close>

definition two_interfaces :: SoapyDNSSDImpl where
  "two_interfaces =
     add_result example_defs 2 1 ''SoapyRemote @ peer'' ''_soapy._tcp'' ''local'' ''A'' ''fe80::1'' 55132
       (add_result example_defs 3 1 ''SoapyRemote @ peer'' ''_soapy._tcp'' ''local'' ''A'' ''fe80::1'' 55132
          example_session)"


text \<open>A daemon that refuses a service on the port 0 and accepts every other one.\<close>

definition refusing_publish :: PublishEnv where
  "refusing_publish = \<lparr>entry_group_new = True,
     add_service = (\<lambda>svc. if svc_port svc = 0 then - 12 else 0), commit = 0\<rparr>"

text \<open>
  A browse that finds one service and then fails, before the resolver of the service has
  completed; the resolver completes later, on the background thread.
\<close>

definition failing_browse :: BrowseEnv where
  "failing_browse = \<lparr>service_browser_new = (\<lambda>protocol. Some 1),
     iterations =
       [[Browser 2 0 AVAHI_BROWSER_NEW ''SoapyRemote @ peer'' ''_soapy._tcp'' ''local'' True 0],
        [Browser 2 0 AVAHI_BROWSER_FAILURE [] [] [] False (- 1)]]\<rparr>"

definition late_resolver :: Callback where
  "late_resolver =
     Resolver 2 0 AVAHI_RESOLVER_FAILURE ''SoapyRemote @ peer'' ''_soapy._tcp'' ''local'' None 0 []"

text \<open>
  A daemon that accepts a service only for the protocol \<open>- 1\<close>, and one that returns a
  browser only for the protocol \<open>- 1\<close> (\<^verbatim>\<open>AVAHI_PROTO_UNSPEC\<close> in \<open>example_defs\<close>).
\<close>

definition unspec_only_publish :: PublishEnv where
  "unspec_only_publish = \<lparr>entry_group_new = True,
     add_service = (\<lambda>svc. if svc_protocol svc = - 1 then 0 else - 1), commit = 0\<rparr>"

definition unspec_only_browse :: BrowseEnv where
  "unspec_only_browse = \<lparr>service_browser_new = (\<lambda>protocol. if protocol = - 1 then Some 1 else None),
     iterations = [[Browser 0 0 AVAHI_BROWSER_ALL_FOR_NOW [] [] [] False 0]]\<rparr>"

section \<open>Properties\<close>

subsection \<open>Basic facts\<close>

lemma defs_ok_example: "defs_ok example_defs"
  by (simp add: defs_ok_def example_defs_def)

lemma client_ctor:
  "client (SoapyDNSSDImpl_ctor poll_new client_new error) =
     (if poll_new = None then None else client_new)"
  by (simp add: SoapyDNSSDImpl_ctor_def SoapyDNSSDImpl_init_def logf_def Let_def)

lemma browser_ctor: "browser (SoapyDNSSDImpl_ctor poll_new client_new error) = None"
  by (simp add: SoapyDNSSDImpl_ctor_def SoapyDNSSDImpl_init_def logf_def Let_def)

lemma results_ctor: "results (SoapyDNSSDImpl_ctor poll_new client_new error) = RBT.empty"
  by (simp add: SoapyDNSSDImpl_ctor_def SoapyDNSSDImpl_init_def logf_def Let_def)

subsection \<open>The in-flight counter\<close>

lemma resolversInFlight_add_result:
  "resolversInFlight (add_result d interface protocol name type domain uuid host port s) =
     resolversInFlight s"
  by (simp add: add_result_def Let_def logf_def)

lemma resolversInFlight_remove_result:
  "resolversInFlight (remove_result interface protocol name type domain s) = resolversInFlight s"
  by (simp add: remove_result_def Let_def logf_def split: option.split)

lemma resolversInFlight_resolverCallback:
  "resolversInFlight (resolverCallback d interface protocol event name type domain address port txt s) =
     resolversInFlight s - 1"
  by (simp add: resolverCallback_def Let_def resolversInFlight_add_result split: option.split)

lemma resolversInFlight_browserCallback:
  "resolversInFlight (browserCallback interface protocol event name type domain resolver_new errno s) =
     (if event = AVAHI_BROWSER_FAILURE then 0
      else if event = AVAHI_BROWSER_NEW \<and> resolver_new then resolversInFlight s + 1
      else resolversInFlight s)"
  by (cases event) (simp_all add: browserCallback_def logf_def resolversInFlight_remove_result)

text \<open>
  What the counter does keep: along callbacks that the library can deliver and that hold
  no browser failure, the counter moves with the number of live resolvers (one up for each
  resolver allocated on a new service, one down for each completion).
\<close>

lemma counter_follows_resolvers:
  "outstanding n cbs = Some m \<Longrightarrow> list_all (\<lambda>cb. \<not> browser_failure cb) cbs \<Longrightarrow>
     resolversInFlight (run_callbacks d cbs s) + of_nat n = resolversInFlight s + of_nat m"
proof (induction cbs arbitrary: n s)
  case Nil
  then show ?case by (simp add: run_callbacks_def)
next
  case (Cons cb cbs)
  have step: "run_callbacks d (c # cbs) s = run_callbacks d cbs (dispatch d c s)" for c
    by (simp add: run_callbacks_def)
  show ?case
  proof (cases cb)
    case (Browser interface protocol event name type domain resolver_new errno)
    let ?n = "if event = AVAHI_BROWSER_NEW \<and> resolver_new then Suc n else n"
    from Cons.prems Browser have "outstanding ?n cbs = Some m"
      and "list_all (\<lambda>cb. \<not> browser_failure cb) cbs" and "event \<noteq> AVAHI_BROWSER_FAILURE"
      by simp_all
    with Cons.IH [of ?n "dispatch d cb s"] Browser show ?thesis
      by (simp add: step resolversInFlight_browserCallback split: if_splits)
  next
    case (Resolver interface protocol event name type domain address port strlst)
    with Cons.prems obtain k where n: "n = Suc k" and "outstanding k cbs = Some m"
      and "list_all (\<lambda>cb. \<not> browser_failure cb) cbs"
      by (cases n) simp_all
    with Cons.IH [of k "dispatch d cb s"] Resolver show ?thesis
      by (simp add: step resolversInFlight_resolverCallback algebra_simps)
  qed
qed

text \<open>
  C1. The counter \<open>resolversInFlight\<close> never wraps below zero along the callbacks that
  the library can deliver. The code does not keep this. In the first \<open>getServerURLs\<close>
  of a session the browser reports a new service (one resolver is allocated) and then a
  failure: the counter is forced to 0 with that resolver still live, and the inline pump
  ends. When the resolver completes, on the background thread, the unguarded decrement
  takes the unsigned counter from 0 to \<open>2^64 - 1\<close>. The callbacks are ones the library
  can deliver: the resolver callback belongs to the one live resolver.
\<close>

theorem resolversInFlight_wraps:
  "outstanding 0 (concat (iterations failing_browse) @ [late_resolver]) = Some 0 \<and>
   (case run_calls example_defs [GetServerURLs failing_browse 0, Background [late_resolver]]
           example_session of
      Inl f \<Rightarrow> None
    | Inr s \<Rightarrow> Some (uint (resolversInFlight s))) = Some 18446744073709551615"
  by code_simp

subsection \<open>The background poll thread\<close>

text \<open>
  C2. At most one background poll thread is created in a session. The code does not keep
  this: a successful \<open>registerService\<close> constructs a thread, and the first
  \<open>getServerURLs\<close> of the same session constructs a second one, with no test of
  \<open>pollThread\<close> on either path. The pair below is the number of threads constructed
  after the first and after the second call.
\<close>

theorem two_poll_threads:
  "(case registerService example_defs accepting_publish ''A'' ''55132'' 4 example_session of
      Inl f \<Rightarrow> None
    | Inr s \<Rightarrow>
       (case getServerURLs example_defs quiet_browse 0 s of
          Inl f \<Rightarrow> None
        | Inr (snapshot, s') \<Rightarrow> Some (threads s, threads s'))) = Some (1, 2)"
  by (simp add: registerService_def getServerURLs_def example_session_def SoapyDNSSDImpl_ctor_def
      SoapyDNSSDImpl_init_def example_client_def start_poll_thread_def run_callbacks_def
      browserCallback_def logf_def Let_def accepting_publish_def quiet_browse_def)

subsection \<open>\<open>status\<close>\<close>

text \<open>
  C3, as the claim states it, fails: with the daemon absent, the client that the
  no-fail construction returns is in the state \<^verbatim>\<open>AVAHI_CLIENT_CONNECTING\<close>, and
  \<open>status\<close> answers true.
\<close>

theorem status_daemon_absent_counterexample:
  "status (SoapyDNSSDImpl_ctor (Some 0) (Some connecting_client) 0) = Inr True"
  by (simp add: status_def client_ctor connecting_client_def)

text \<open>
  C3, amended. For a session with a client, \<open>status\<close> answers whether the state of the
  client differs from \<^verbatim>\<open>AVAHI_CLIENT_FAILURE\<close>: it answers false exactly in the state
  \<^verbatim>\<open>AVAHI_CLIENT_FAILURE\<close>, and true in every other state, \<^verbatim>\<open>AVAHI_CLIENT_CONNECTING\<close>
  (daemon absent) included.
\<close>

theorem status_false_iff_failure:
  "client s = Some c \<Longrightarrow>
     status s = Inr (client_state c \<noteq> AVAHI_CLIENT_FAILURE) \<and>
     (status s = Inr False \<longleftrightarrow> client_state c = AVAHI_CLIENT_FAILURE)"
  by (simp add: status_def)

theorem status_false_iff_failure_witness:
  "client (SoapyDNSSDImpl_ctor (Some 0) (Some failed_client) 0) = Some failed_client \<and>
   status (SoapyDNSSDImpl_ctor (Some 0) (Some failed_client) 0) = Inr False"
  using status_false_iff_failure
    [of "SoapyDNSSDImpl_ctor (Some 0) (Some failed_client) 0" failed_client]
  by (simp add: client_ctor failed_client_def)

subsection \<open>Removal from the result store\<close>

lemma remove_result_absent:
  "RBT.lookup (results s) (interface, protocol, name, type, domain) = None \<Longrightarrow>
     remove_result interface protocol name type domain s = s"
  by (simp add: remove_result_def)

lemma lookup_remove_result:
  "RBT.lookup (results (remove_result interface protocol name type domain s)) k =
     (if k = (interface, protocol, name, type, domain) then None else RBT.lookup (results s) k)"
  by (auto simp add: remove_result_def Let_def logf_def split: option.split)

text \<open>
  C8. Removing a key that the result map does not hold leaves the whole session
  unchanged (map and log), and removing the same key twice gives the same session as
  removing it once.
\<close>

theorem remove_result_absent_noop:
  "(RBT.lookup (results s) (interface, protocol, name, type, domain) = None \<longrightarrow>
      remove_result interface protocol name type domain s = s) \<and>
   remove_result interface protocol name type domain
     (remove_result interface protocol name type domain s) =
   remove_result interface protocol name type domain s"
proof
  show "RBT.lookup (results s) (interface, protocol, name, type, domain) = None \<longrightarrow>
      remove_result interface protocol name type domain s = s"
    by (simp add: remove_result_absent)
next
  have "RBT.lookup (results (remove_result interface protocol name type domain s))
          (interface, protocol, name, type, domain) = None"
    by (simp add: lookup_remove_result)
  then show "remove_result interface protocol name type domain
     (remove_result interface protocol name type domain s) =
   remove_result interface protocol name type domain s"
    by (rule remove_result_absent)
qed

theorem remove_result_absent_noop_witness:
  "RBT.lookup (results example_session)
     (2, 0, ''SoapyRemote @ peer'', ''_soapy._tcp'', ''local'') = None \<and>
   remove_result 2 0 ''SoapyRemote @ peer'' ''_soapy._tcp'' ''local'' example_session =
     example_session"
  using remove_result_absent_noop
    [of example_session 2 0 "''SoapyRemote @ peer''" "''_soapy._tcp''" "''local''"]
  by (simp add: example_session_def results_ctor)

subsection \<open>The null client\<close>

lemma status_fault: "status s = Inl NullClient \<longleftrightarrow> client s = None"
  by (simp add: status_def split: option.split)

lemma printInfo_fault: "printInfo s = Inl NullClient \<longleftrightarrow> client s = None"
  by (simp add: printInfo_def split: option.split)

lemma registerService_fault:
  "registerService d penv uuid service ipVer s = Inl NullClient \<longleftrightarrow> client s = None"
  by (simp add: registerService_def Let_def split: option.split)

lemma handles_add_result:
  "client (add_result d interface protocol name type domain uuid host port s) = client s \<and>
   browser (add_result d interface protocol name type domain uuid host port s) = browser s"
  by (simp add: add_result_def Let_def logf_def)

lemma handles_remove_result:
  "client (remove_result interface protocol name type domain s) = client s \<and>
   browser (remove_result interface protocol name type domain s) = browser s"
  by (simp add: remove_result_def Let_def logf_def split: option.split)

lemma handles_dispatch:
  "client (dispatch d cb s) = client s \<and> browser (dispatch d cb s) = browser s"
proof (cases cb)
  case (Browser interface protocol event name type domain resolver_new errno)
  then show ?thesis
    by (cases event) (simp_all add: browserCallback_def logf_def handles_remove_result)
next
  case (Resolver interface protocol event name type domain address port strlst)
  then show ?thesis
    by (simp add: resolverCallback_def Let_def handles_add_result split: option.split)
qed

lemma handles_run_callbacks:
  "client (run_callbacks d cbs s) = client s \<and> browser (run_callbacks d cbs s) = browser s"
  unfolding run_callbacks_def
  by (induction cbs arbitrary: s) (simp_all add: handles_dispatch)

lemma handles_pump:
  "pump d its s = Some s' \<Longrightarrow> client s' = client s \<and> browser s' = browser s"
proof (induction its arbitrary: s)
  case Nil
  then show ?case by (simp split: if_splits)
next
  case (Cons cbs its)
  show ?case
  proof (cases "\<not> browseComplete s \<or> resolversInFlight s \<noteq> 0")
    case True
    with Cons.prems have "pump d its (run_callbacks d cbs s) = Some s'"
      by simp
    from Cons.IH [OF this] show ?thesis
      by (simp add: handles_run_callbacks)
  next
    case False
    with Cons.prems show ?thesis by simp
  qed
qed

lemma handles_registerService:
  "registerService d env uuid service ipVer s = Inr s' \<Longrightarrow>
     client s' = client s \<and> browser s' = browser s"
  by (auto simp add: registerService_def Let_def logf_def start_poll_thread_def
      split: option.splits if_splits)

lemma handles_printInfo:
  "printInfo s = Inr s' \<Longrightarrow> client s' = client s \<and> browser s' = browser s"
  by (auto simp add: printInfo_def logf_def split: option.splits)

lemma client_before_browser_getServerURLs:
  assumes "client_before_browser s" and "getServerURLs d env ipVerReq s = Inr (snapshot, s')"
  shows "client_before_browser s'"
proof (cases "browser s \<noteq> None")
  case True
  with assms show ?thesis by (simp add: getServerURLs_def)
next
  case False
  with assms(2) obtain c where c: "client s = Some c"
    by (auto simp add: getServerURLs_def split: option.splits)
  let ?s1 = "s\<lparr>browser := service_browser_new env (ipVerToAvahiProtocol d ipVerReq)\<rparr>"
  show ?thesis
  proof (cases "service_browser_new env (ipVerToAvahiProtocol d ipVerReq)")
    case None
    with False c assms(2) show ?thesis
      by (auto simp add: getServerURLs_def Let_def client_before_browser_def logf_def)
  next
    case (Some b)
    with False c assms(2) obtain s2 where p: "pump d (iterations env) ?s1 = Some s2"
      and s': "s' = start_poll_thread s2"
      by (auto simp add: getServerURLs_def Let_def split: option.splits)
    from handles_pump [OF p] c s' show ?thesis
      by (simp add: client_before_browser_def start_poll_thread_def)
  qed
qed

lemma client_before_browser_apply_call:
  assumes "client_before_browser s" and "apply_call d c s = Inr s'"
  shows "client_before_browser s'"
proof (cases c)
  case PrintInfo
  with assms show ?thesis
    by (auto simp add: client_before_browser_def dest: handles_printInfo)
next
  case Status
  with assms show ?thesis
    by (auto split: sum.splits)
next
  case (RegisterService env uuid service ipVer)
  with assms show ?thesis
    by (auto simp add: client_before_browser_def dest: handles_registerService)
next
  case (GetServerURLs env ipVerReq)
  with assms show ?thesis
    by (auto split: sum.splits dest: client_before_browser_getServerURLs)
next
  case (Background cbs)
  with assms show ?thesis
    by (auto simp add: client_before_browser_def handles_run_callbacks)
qed

lemma client_before_browser_run_calls:
  "client_before_browser s \<Longrightarrow> run_calls d cs s = Inr s' \<Longrightarrow> client_before_browser s'"
proof (induction cs arbitrary: s)
  case Nil
  then show ?case by simp
next
  case (Cons c cs)
  then show ?case
    by (auto split: sum.splits dest: client_before_browser_apply_call)
qed

lemma client_before_browser_ctor:
  "client_before_browser (SoapyDNSSDImpl_ctor poll_new client_new error)"
  by (simp add: client_before_browser_def browser_ctor)

lemma getServerURLs_fault_session:
  "client_before_browser s \<Longrightarrow>
     getServerURLs d benv ipVer s = Inl NullClient \<longleftrightarrow> client s = None"
  by (auto simp add: getServerURLs_def Let_def client_before_browser_def split: option.splits)

text \<open>
  C9. When \<^verbatim>\<open>avahi_client_new\<close> returns null, the client of the constructed session is
  null. In a session that was constructed and then went through any calls of the facade
  and any callbacks, each of \<open>status\<close>, \<open>printInfo\<close>, \<open>registerService\<close> and
  \<open>getServerURLs\<close> hands the client to the library unguarded: the operation ends in the
  null-client fault if and only if the client is null. (\<open>getServerURLs\<close> leaves the
  client alone once a browser exists, and a browser exists only in a session with a
  client.)
\<close>

theorem facade_requires_client:
  "client (SoapyDNSSDImpl_ctor poll_new None error) = None \<and>
   (run_calls d calls (SoapyDNSSDImpl_ctor poll_new client_new error) = Inr s \<longrightarrow>
      (status s = Inl NullClient \<longleftrightarrow> client s = None) \<and>
      (printInfo s = Inl NullClient \<longleftrightarrow> client s = None) \<and>
      (registerService d penv uuid service ipVer s = Inl NullClient \<longleftrightarrow> client s = None) \<and>
      (getServerURLs d benv ipVerReq s = Inl NullClient \<longleftrightarrow> client s = None))"
proof (intro conjI impI)
  show "client (SoapyDNSSDImpl_ctor poll_new None error) = None"
    by (simp add: client_ctor)
next
  assume "run_calls d calls (SoapyDNSSDImpl_ctor poll_new client_new error) = Inr s"
  with client_before_browser_ctor have "client_before_browser s"
    by (rule client_before_browser_run_calls)
  then show "getServerURLs d benv ipVerReq s = Inl NullClient \<longleftrightarrow> client s = None"
    by (rule getServerURLs_fault_session)
qed (simp_all add: status_fault printInfo_fault registerService_fault)

theorem facade_requires_client_witness:
  "run_calls example_defs [Background []] (SoapyDNSSDImpl_ctor (Some 0) None 0) =
     Inr (SoapyDNSSDImpl_ctor (Some 0) None 0) \<and>
   client (SoapyDNSSDImpl_ctor (Some 0) None 0) = None \<and>
   status (SoapyDNSSDImpl_ctor (Some 0) None 0) = Inl NullClient \<and>
   printInfo (SoapyDNSSDImpl_ctor (Some 0) None 0) = Inl NullClient \<and>
   registerService example_defs accepting_publish ''A'' ''55132'' 4
     (SoapyDNSSDImpl_ctor (Some 0) None 0) = Inl NullClient \<and>
   getServerURLs example_defs quiet_browse 0 (SoapyDNSSDImpl_ctor (Some 0) None 0) =
     Inl NullClient"
  using facade_requires_client [of "Some 0" 0 example_defs "[Background []]" None
      "SoapyDNSSDImpl_ctor (Some 0) None 0"
      accepting_publish "''A''" "''55132''" 4 quiet_browse 0]
  by (simp add: client_ctor run_callbacks_def)

subsection \<open>An unrecognised IP version\<close>

lemma ipVerToAvahiProtocol_unspec:
  "defs_ok d \<Longrightarrow> ipVerToAvahiProtocol d (SOAPY_REMOTE_IPVER_UNSPEC d) = AVAHI_PROTO_UNSPEC d"
  by (simp add: defs_ok_def ipVerToAvahiProtocol_def)

lemma ipVerToAvahiProtocol_other:
  "ipVer \<notin> {SOAPY_REMOTE_IPVER_UNSPEC d, SOAPY_REMOTE_IPVER_INET d, SOAPY_REMOTE_IPVER_INET6 d}
     \<Longrightarrow> ipVerToAvahiProtocol d ipVer = AVAHI_PROTO_UNSPEC d"
  by (simp add: ipVerToAvahiProtocol_def)

lemma registerService_add_refused:
  assumes "ipVerToAvahiProtocol d ipVer = protocol" and "client s = Some c"
    and "entry_group_new penv"
    and "add_service penv
           \<lparr>svc_protocol = protocol,
            svc_name = take 1023 (SOAPY_REMOTE_DNSSD_NAME @ '' @ '' @ host_name c),
            svc_type = SOAPY_REMOTE_DNSSD_TYPE,
            svc_port = word_of_int (atoi (c_str service)),
            svc_txt = [(''uuid'', c_str uuid)]\<rparr> = ret"
    and "ret \<noteq> 0"
  shows "registerService d penv uuid service ipVer s =
           Inr (logf SOAPY_SDR_ERROR ''avahi_entry_group_add_service() failed: %s'' [ArgStrerror ret]
                  (s\<lparr>group := Some \<lparr>services = [], committed = False\<rparr>\<rparr>))"
  using assms by (simp add: registerService_def service_of_def Let_def)

lemma registerService_add_accepted:
  assumes "ipVerToAvahiProtocol d ipVer = protocol" and "client s = Some c"
    and "entry_group_new penv"
    and "add_service penv
           \<lparr>svc_protocol = protocol,
            svc_name = take 1023 (SOAPY_REMOTE_DNSSD_NAME @ '' @ '' @ host_name c),
            svc_type = SOAPY_REMOTE_DNSSD_TYPE,
            svc_port = word_of_int (atoi (c_str service)),
            svc_txt = [(''uuid'', c_str uuid)]\<rparr> = 0"
  shows "\<exists>s'. registerService d penv uuid service ipVer s = Inr s' \<and>
           map_option services (group s') =
             Some [\<lparr>svc_protocol = protocol,
                    svc_name = take 1023 (SOAPY_REMOTE_DNSSD_NAME @ '' @ '' @ host_name c),
                    svc_type = SOAPY_REMOTE_DNSSD_TYPE,
                    svc_port = word_of_int (atoi (c_str service)),
                    svc_txt = [(''uuid'', c_str uuid)]\<rparr>] \<and>
           map_option committed (group s') = Some (commit penv = 0)"
  using assms
  by (simp add: registerService_def service_of_def Let_def logf_def start_poll_thread_def)

lemma getServerURLs_browser_refused:
  assumes "ipVerToAvahiProtocol d ipVer = protocol" and "browser s = None" and "client s = Some c"
    and "service_browser_new benv protocol = None"
  shows "getServerURLs d benv ipVer s =
           Inr (RBT.empty,
                logf SOAPY_SDR_ERROR ''avahi_service_browser_new() failed: %s''
                  [ArgStrerror (client_errno c)] (s\<lparr>browser := None\<rparr>))"
  using assms by (simp add: getServerURLs_def Let_def)

lemma getServerURLs_browser_returned:
  assumes "ipVerToAvahiProtocol d ipVer = protocol" and "browser s = None" and "client s = Some c"
    and "service_browser_new benv protocol = Some b"
  shows "getServerURLs d benv ipVer s =
           (case pump d (iterations benv) (s\<lparr>browser := Some b\<rparr>) of
              None \<Rightarrow> Inl PumpNeverCompletes
            | Some s2 \<Rightarrow> Inr (getResults (start_poll_thread s2), start_poll_thread s2))"
  using assms by (simp add: getServerURLs_def Let_def split: option.split)

text \<open>
  C10. An \<open>ipVer\<close> that is none of the three constants is converted to
  \<^verbatim>\<open>AVAHI_PROTO_UNSPEC\<close>, and both \<open>registerService\<close> and \<open>getServerURLs\<close> then do
  exactly what they do for \<^verbatim>\<open>SOAPY_REMOTE_IPVER_UNSPEC\<close>: the same result, the same
  session, the same log. What they hand to the daemon is \<^verbatim>\<open>AVAHI_PROTO_UNSPEC\<close>:
  \<open>registerService\<close> (with a client and an entry group) asks the daemon to add the
  service with the protocol \<^verbatim>\<open>AVAHI_PROTO_UNSPEC\<close>, logs the code the daemon returns for
  that service when it is not 0, and otherwise holds that service in its group;
  \<open>getServerURLs\<close> (with a client and no browser yet) asks for a browser of the protocol
  \<^verbatim>\<open>AVAHI_PROTO_UNSPEC\<close>, returns the empty map with a logged error when the daemon
  returns none, and otherwise pumps with that browser and returns the snapshot.
\<close>

theorem unrecognised_ipVer_is_unspec:
  assumes "defs_ok d"
    and "ipVer \<notin> {SOAPY_REMOTE_IPVER_UNSPEC d, SOAPY_REMOTE_IPVER_INET d, SOAPY_REMOTE_IPVER_INET6 d}"
  shows "ipVerToAvahiProtocol d ipVer = AVAHI_PROTO_UNSPEC d \<and>
         registerService d penv uuid service ipVer s =
           registerService d penv uuid service (SOAPY_REMOTE_IPVER_UNSPEC d) s \<and>
         getServerURLs d benv ipVer s = getServerURLs d benv (SOAPY_REMOTE_IPVER_UNSPEC d) s \<and>
         (client s = Some c \<and> entry_group_new penv \<and>
          add_service penv
            \<lparr>svc_protocol = AVAHI_PROTO_UNSPEC d,
             svc_name = take 1023 (SOAPY_REMOTE_DNSSD_NAME @ '' @ '' @ host_name c),
             svc_type = SOAPY_REMOTE_DNSSD_TYPE,
             svc_port = word_of_int (atoi (c_str service)),
             svc_txt = [(''uuid'', c_str uuid)]\<rparr> = ret \<and> ret \<noteq> 0 \<longrightarrow>
            registerService d penv uuid service ipVer s =
              Inr (logf SOAPY_SDR_ERROR ''avahi_entry_group_add_service() failed: %s''
                     [ArgStrerror ret] (s\<lparr>group := Some \<lparr>services = [], committed = False\<rparr>\<rparr>))) \<and>
         (client s = Some c \<and> entry_group_new penv \<and>
          add_service penv
            \<lparr>svc_protocol = AVAHI_PROTO_UNSPEC d,
             svc_name = take 1023 (SOAPY_REMOTE_DNSSD_NAME @ '' @ '' @ host_name c),
             svc_type = SOAPY_REMOTE_DNSSD_TYPE,
             svc_port = word_of_int (atoi (c_str service)),
             svc_txt = [(''uuid'', c_str uuid)]\<rparr> = 0 \<longrightarrow>
            (\<exists>s'. registerService d penv uuid service ipVer s = Inr s' \<and>
               map_option services (group s') =
                 Some [\<lparr>svc_protocol = AVAHI_PROTO_UNSPEC d,
                        svc_name = take 1023 (SOAPY_REMOTE_DNSSD_NAME @ '' @ '' @ host_name c),
                        svc_type = SOAPY_REMOTE_DNSSD_TYPE,
                        svc_port = word_of_int (atoi (c_str service)),
                        svc_txt = [(''uuid'', c_str uuid)]\<rparr>] \<and>
               map_option committed (group s') = Some (commit penv = 0))) \<and>
         (browser s = None \<and> client s = Some c \<and>
          service_browser_new benv (AVAHI_PROTO_UNSPEC d) = None \<longrightarrow>
            getServerURLs d benv ipVer s =
              Inr (RBT.empty,
                   logf SOAPY_SDR_ERROR ''avahi_service_browser_new() failed: %s''
                     [ArgStrerror (client_errno c)] (s\<lparr>browser := None\<rparr>))) \<and>
         (browser s = None \<and> client s = Some c \<and>
          service_browser_new benv (AVAHI_PROTO_UNSPEC d) = Some b \<longrightarrow>
            getServerURLs d benv ipVer s =
              (case pump d (iterations benv) (s\<lparr>browser := Some b\<rparr>) of
                 None \<Rightarrow> Inl PumpNeverCompletes
               | Some s2 \<Rightarrow> Inr (getResults (start_poll_thread s2), start_poll_thread s2)))"
proof -
  have u: "ipVerToAvahiProtocol d ipVer = AVAHI_PROTO_UNSPEC d"
    using assms(2) by (rule ipVerToAvahiProtocol_other)
  have p: "ipVerToAvahiProtocol d ipVer = ipVerToAvahiProtocol d (SOAPY_REMOTE_IPVER_UNSPEC d)"
    using assms(1) u by (simp add: ipVerToAvahiProtocol_unspec)
  have r: "registerService d penv uuid service ipVer s =
           registerService d penv uuid service (SOAPY_REMOTE_IPVER_UNSPEC d) s"
    unfolding registerService_def service_of_def p ..
  have g: "getServerURLs d benv ipVer s = getServerURLs d benv (SOAPY_REMOTE_IPVER_UNSPEC d) s"
    unfolding getServerURLs_def p ..
  show ?thesis
    using u r g
      registerService_add_refused [OF u, of s c penv service uuid ret]
      registerService_add_accepted [OF u, of s c penv service uuid]
      getServerURLs_browser_refused [OF u, of s c benv]
      getServerURLs_browser_returned [OF u, of s c benv b]
    by blast
qed

lemma example_session_fields:
  "client example_session = Some example_client \<and> browser example_session = None"
  by (simp add: example_session_def client_ctor browser_ctor)

theorem unrecognised_ipVer_is_unspec_witness:
  "defs_ok example_defs \<and>
   (7::int) \<notin> {SOAPY_REMOTE_IPVER_UNSPEC example_defs, SOAPY_REMOTE_IPVER_INET example_defs,
      SOAPY_REMOTE_IPVER_INET6 example_defs} \<and>
   ipVerToAvahiProtocol example_defs 7 = - 1 \<and>
   registerService example_defs accepting_publish ''A'' ''55132'' 7 example_session =
     registerService example_defs accepting_publish ''A'' ''55132'' 0 example_session \<and>
   getServerURLs example_defs quiet_browse 7 example_session =
     getServerURLs example_defs quiet_browse 0 example_session \<and>
   (\<exists>s'. registerService example_defs unspec_only_publish ''A'' ''55132'' 7 example_session = Inr s' \<and>
      map_option (map svc_protocol \<circ> services) (group s') = Some [- 1] \<and>
      map_option committed (group s') = Some True) \<and>
   (\<exists>snapshot s'. getServerURLs example_defs unspec_only_browse 7 example_session =
      Inr (snapshot, s') \<and> browser s' = Some 1)"
proof -
  have h2: "(7::int) \<notin> {SOAPY_REMOTE_IPVER_UNSPEC example_defs, SOAPY_REMOTE_IPVER_INET example_defs,
      SOAPY_REMOTE_IPVER_INET6 example_defs}"
    by (simp add: example_defs_def)
  have unspec: "AVAHI_PROTO_UNSPEC example_defs = - 1"
    by (simp add: example_defs_def)
  note inst = unrecognised_ipVer_is_unspec [OF defs_ok_example h2,
      of _ "''A''" "''55132''" example_session _ example_client _ 1]
  have accepted: "add_service unspec_only_publish
       \<lparr>svc_protocol = AVAHI_PROTO_UNSPEC example_defs,
        svc_name = take 1023 (SOAPY_REMOTE_DNSSD_NAME @ '' @ '' @ host_name example_client),
        svc_type = SOAPY_REMOTE_DNSSD_TYPE,
        svc_port = word_of_int (atoi (c_str ''55132'')),
        svc_txt = [(''uuid'', c_str ''A'')]\<rparr> = 0"
    by (simp add: unspec_only_publish_def unspec)
  have group_new: "entry_group_new unspec_only_publish" and commit0: "commit unspec_only_publish = 0"
    by (simp_all add: unspec_only_publish_def)
  from inst [of unspec_only_publish quiet_browse 0] accepted group_new example_session_fields
  obtain s' where
    reg: "registerService example_defs unspec_only_publish ''A'' ''55132'' 7 example_session = Inr s'"
    and svcs: "map_option services (group s') =
       Some [\<lparr>svc_protocol = AVAHI_PROTO_UNSPEC example_defs,
        svc_name = take 1023 (SOAPY_REMOTE_DNSSD_NAME @ '' @ '' @ host_name example_client),
        svc_type = SOAPY_REMOTE_DNSSD_TYPE,
        svc_port = word_of_int (atoi (c_str ''55132'')),
        svc_txt = [(''uuid'', c_str ''A'')]\<rparr>]"
    and comm: "map_option committed (group s') = Some (commit unspec_only_publish = 0)"
    by blast
  from svcs have "map_option (map svc_protocol \<circ> services) (group s') = Some [- 1]"
    by (cases "group s'") (auto simp add: unspec)
  with reg comm commit0 have publish:
    "\<exists>s'. registerService example_defs unspec_only_publish ''A'' ''55132'' 7 example_session = Inr s' \<and>
      map_option (map svc_protocol \<circ> services) (group s') = Some [- 1] \<and>
      map_option committed (group s') = Some True"
    by auto
  have returned: "service_browser_new unspec_only_browse (AVAHI_PROTO_UNSPEC example_defs) = Some 1"
    by (simp add: unspec_only_browse_def unspec)
  from inst [of accepting_publish unspec_only_browse 0] returned example_session_fields
  have "getServerURLs example_defs unspec_only_browse 7 example_session =
      (case pump example_defs (iterations unspec_only_browse) (example_session\<lparr>browser := Some 1\<rparr>) of
         None \<Rightarrow> Inl PumpNeverCompletes
       | Some s2 \<Rightarrow> Inr (getResults (start_poll_thread s2), start_poll_thread s2))"
    by blast
  then have browse: "\<exists>snapshot s'. getServerURLs example_defs unspec_only_browse 7 example_session =
      Inr (snapshot, s') \<and> browser s' = Some 1"
    by (simp add: unspec_only_browse_def example_session_def SoapyDNSSDImpl_ctor_def
        SoapyDNSSDImpl_init_def run_callbacks_def browserCallback_def start_poll_thread_def)
  from inst [of accepting_publish quiet_browse 0] defs_ok_example h2 unspec publish browse
  show ?thesis
    by (simp add: example_defs_def)
qed

subsection \<open>The snapshot of \<open>getServerURLs\<close>\<close>

lemma results_add_result:
  "results (add_result d interface protocol name type domain uuid host port s) =
     (if uuid = [] then results s
      else RBT.insert (interface, protocol, name, type, domain)
             (uuid, avahiProtocolToIpVer d protocol,
              SoapyURL_toString ''tcp''
                (if protocol = AVAHI_PROTO_INET6 d then host @ ''%'' @ to_string interface else host)
                (to_string (uint port)))
             (results s))"
  by (simp add: add_result_def Let_def logf_def)

lemma two_interfaces_greatest:
  "RBT.lookup (results two_interfaces) key = Some val \<Longrightarrow>
     key \<le> (3, 1, ''SoapyRemote @ peer'', ''_soapy._tcp'', ''local'')"
  by (auto simp add: two_interfaces_def results_add_result example_session_def results_ctor
      split: if_splits)

lemma snapshot_at_empty: "snapshot_at RBT.empty u v = None"
  by (simp add: snapshot_at_def)

lemma snapshot_at_entry:
  "snapshot_at (snapshot_entry (key, uuid, ipVer, serverURL) m) u v =
     (if u = uuid \<and> v = ipVer then Some serverURL else snapshot_at m u v)"
  by (simp add: snapshot_at_def snapshot_entry_def Let_def split: option.split)

lemma snapshot_at_fold:
  "snapshot_at (fold snapshot_entry es m) u v =
     (case map_of (rev (map slot_of es)) (u, v) of
        None \<Rightarrow> snapshot_at m u v
      | Some serverURL \<Rightarrow> Some serverURL)"
proof (induction es arbitrary: m)
  case Nil
  show ?case by simp
next
  case (Cons e es)
  obtain key uuid ipVer serverURL where e: "e = (key, uuid, ipVer, serverURL)"
    by (cases e) auto
  show ?case
    by (simp add: Cons.IH e snapshot_at_entry slot_of_def map_add_def split: option.split)
qed

lemma snapshot_at_getResults:
  "snapshot_at (getResults s) u v = map_of (rev (map slot_of (RBT.entries (results s)))) (u, v)"
  by (simp add: getResults_def snapshot_at_fold snapshot_at_empty split: option.split)

lemma snapshot_entry_stored:
  assumes "snapshot_at (getResults s) u v = Some url"
  shows "\<exists>key. RBT.lookup (results s) key = Some (u, v, url)"
proof -
  from assms have "((u, v), url) \<in> set (map slot_of (RBT.entries (results s)))"
    by (auto simp add: snapshot_at_getResults dest: map_of_SomeD)
  then obtain key where "(key, u, v, url) \<in> set (RBT.entries (results s))"
    by (auto simp add: slot_of_def)
  then have "RBT.lookup (results s) key = Some (u, v, url)"
    by (simp add: RBT.lookup_in_tree)
  then show ?thesis ..
qed

lemma last_slot_wins:
  assumes "\<forall>e \<in> set ys. fst (slot_of e) \<noteq> (u, v)"
  shows "map_of (rev (map slot_of (xs @ (key, u, v, url) # ys))) (u, v) = Some url"
proof -
  have "map_of (rev (map slot_of ys)) (u, v) = None"
    using assms by (auto simp add: map_of_eq_None_iff)
  then show ?thesis
    by (simp add: map_add_def slot_of_def split: option.split)
qed

lemma later_keys_greater:
  assumes "sorted (map fst (xs @ (key, val) # ys))" and "distinct (map fst (xs @ (key, val) # ys))"
    and "(key', val') \<in> set ys"
  shows "key < key'"
proof -
  from assms(1,3) have "key \<le> key'"
    by (force simp add: sorted_append)
  moreover from assms(2,3) have "key \<noteq> key'"
    by force
  ultimately show ?thesis by simp
qed

lemma snapshot_greatest_key:
  assumes stored: "RBT.lookup (results s) key = Some (u, v, url)"
    and greatest: "\<forall>key' url'. key < key' \<longrightarrow> RBT.lookup (results s) key' \<noteq> Some (u, v, url')"
  shows "snapshot_at (getResults s) u v = Some url"
proof -
  from stored have "(key, u, v, url) \<in> set (RBT.entries (results s))"
    by (simp add: RBT.lookup_in_tree)
  then obtain xs ys where split: "RBT.entries (results s) = xs @ (key, u, v, url) # ys"
    by (auto dest: split_list)
  have "fst (slot_of e) \<noteq> (u, v)" if e: "e \<in> set ys" for e
  proof
    assume same: "fst (slot_of e) = (u, v)"
    obtain key' url' where e': "e = (key', u, v, url')"
      using same by (cases e) (auto simp add: slot_of_def)
    have "key < key'"
      using later_keys_greater [of xs key "(u, v, url)" ys key' "(u, v, url')"]
        RBT.sorted_entries [of "results s"] RBT.distinct_entries [of "results s"] e e' split
      by simp
    moreover have "RBT.lookup (results s) key' = Some (u, v, url')"
      using e e' split by (simp add: RBT.lookup_in_tree)
    ultimately show False using greatest by blast
  qed
  then have "map_of (rev (map slot_of (xs @ (key, u, v, url) # ys))) (u, v) = Some url"
    by (intro last_slot_wins) blast
  then show ?thesis
    by (simp add: snapshot_at_getResults split)
qed

lemma snapshot_defined:
  assumes "RBT.lookup (results s) key = Some (u, v, url)"
  shows "\<exists>url'. snapshot_at (getResults s) u v = Some url'"
proof -
  from assms have "(key, u, v, url) \<in> set (RBT.entries (results s))"
    by (simp add: RBT.lookup_in_tree)
  then have "(u, v) \<in> fst ` set (rev (map slot_of (RBT.entries (results s))))"
    by (force simp add: slot_of_def)
  then have "map_of (rev (map slot_of (RBT.entries (results s)))) (u, v) \<noteq> None"
    by (simp only: map_of_eq_None_iff not_not)
  then show ?thesis
    by (auto simp add: snapshot_at_getResults)
qed

text \<open>
  C5, as the claim states it, fails from right to left: when the same service was resolved
  on two interfaces, both entries are stored with the uuid \<open>A\<close> and the IP version 6, and
  the snapshot holds only the URL of the second one in key order. The entry of interface 2
  is stored, and it is not what the snapshot gives for \<open>A\<close> and 6.
\<close>

theorem snapshot_projection_counterexample:
  "RBT.lookup (results two_interfaces) (2, 1, ''SoapyRemote @ peer'', ''_soapy._tcp'', ''local'') =
     Some (''A'', 6, ''tcp://fe80::1%2:55132'') \<and>
   snapshot_at (getResults two_interfaces) ''A'' 6 = Some ''tcp://fe80::1%3:55132'' \<and>
   snapshot_at (getResults two_interfaces) ''A'' 6 \<noteq> Some ''tcp://fe80::1%2:55132''"
  by code_simp

text \<open>
  C5, amended. The snapshot gives a URL for \<open>(uuid, ipVer)\<close> only if some stored entry
  has this uuid, IP version and URL. If some stored entry has this uuid and IP version, the
  snapshot gives a URL for them, and it is the URL of the entry with the greatest key
  among the entries with this uuid and IP version (the loop runs in ascending key order
  and a later assignment replaces an earlier one).
\<close>

theorem snapshot_projection:
  "(snapshot_at (getResults s) u v = Some url \<longrightarrow>
      (\<exists>key. RBT.lookup (results s) key = Some (u, v, url))) \<and>
   (RBT.lookup (results s) key = Some (u, v, url) \<longrightarrow>
      (\<exists>url'. snapshot_at (getResults s) u v = Some url')) \<and>
   (RBT.lookup (results s) key = Some (u, v, url) \<and>
    (\<forall>key' url'. key < key' \<longrightarrow> RBT.lookup (results s) key' \<noteq> Some (u, v, url')) \<longrightarrow>
      snapshot_at (getResults s) u v = Some url)"
  using snapshot_entry_stored [of s u v url] snapshot_defined [of s key u v url]
    snapshot_greatest_key [of s key u v url]
  by blast

theorem snapshot_projection_witness:
  "RBT.lookup (results two_interfaces) (3, 1, ''SoapyRemote @ peer'', ''_soapy._tcp'', ''local'') =
     Some (''A'', 6, ''tcp://fe80::1%3:55132'') \<and>
   snapshot_at (getResults two_interfaces) ''A'' 6 = Some ''tcp://fe80::1%3:55132'' \<and>
   (\<exists>key. RBT.lookup (results two_interfaces) key = Some (''A'', 6, ''tcp://fe80::1%3:55132''))"
proof -
  have stored: "RBT.lookup (results two_interfaces)
      (3, 1, ''SoapyRemote @ peer'', ''_soapy._tcp'', ''local'') =
      Some (''A'', 6, ''tcp://fe80::1%3:55132'')"
    by code_simp
  have greatest: "\<forall>key' url'. (3, 1, ''SoapyRemote @ peer'', ''_soapy._tcp'', ''local'') < key' \<longrightarrow>
      RBT.lookup (results two_interfaces) key' \<noteq> Some (''A'', 6, url')"
    using two_interfaces_greatest by fastforce
  from stored greatest
    snapshot_projection [of two_interfaces "''A''" 6 "''tcp://fe80::1%3:55132''"
      "(3, 1, ''SoapyRemote @ peer'', ''_soapy._tcp'', ''local'')"]
  show ?thesis by blast
qed

subsection \<open>Only peers with a uuid are stored\<close>
























subsection \<open>The URL of a stored result\<close>

lemma isdigit_char_of:
  assumes "0 \<le> m" and "m < 10"
  shows "isdigit (char_of (48 + m :: int))"
proof -
  have "(of_char (char_of (48 + m)) :: int) = (48 + m) mod 256"
    by simp
  also have "\<dots> = 48 + m"
    using assms by simp
  finally have i: "(of_char (char_of (48 + m)) :: int) = 48 + m" .
  have "int (of_char (char_of (48 + m)) :: nat) = (of_char (char_of (48 + m)) :: int)"
    by (simp only: of_nat_of_char)
  with i have "int (of_char (char_of (48 + m)) :: nat) = 48 + m"
    by simp
  with assms show ?thesis
    unfolding isdigit_def by linarith
qed

lemma decimal_digits: "0 \<le> n \<Longrightarrow> list_all isdigit (decimal n)"
proof (induction n rule: decimal.induct)
  case (1 n)
  show ?case
  proof (cases "n < 10")
    case True
    with "1.prems" show ?thesis
      by (subst decimal.simps) (simp add: isdigit_char_of)
  next
    case False
    with "1.prems" have "0 \<le> n div 10" by simp
    with False "1.IH" have "list_all isdigit (decimal (n div 10))" by simp
    moreover have "isdigit (char_of (48 + n mod 10))"
      by (rule isdigit_char_of) simp_all
    ultimately show ?thesis
      using False by (subst decimal.simps) simp
  qed
qed

lemma decimal_nonempty: "decimal n \<noteq> []"
  by (subst decimal.simps) simp

lemma percent_not_digit: "\<not> isdigit CHR ''%''"
  by (simp add: isdigit_def)

lemma minus_not_percent: "CHR ''-'' \<noteq> CHR ''%''"
  by simp

lemma to_string_no_percent: "CHR ''%'' \<notin> set (to_string i)"
proof -
  have "CHR ''%'' \<notin> set (decimal n)" if "0 \<le> n" for n
    using decimal_digits [OF that] percent_not_digit by (auto simp add: list_all_iff)
  then show ?thesis
    by (simp add: to_string_def)
qed

lemma to_string_digits: "0 \<le> i \<Longrightarrow> list_all isdigit (to_string i) \<and> to_string i \<noteq> []"
  by (simp add: to_string_def decimal_digits decimal_nonempty)

lemma avahiProtocolToIpVer_inet6:
  "defs_ok d \<Longrightarrow>
     avahiProtocolToIpVer d protocol = SOAPY_REMOTE_IPVER_INET6 d \<longleftrightarrow> protocol = AVAHI_PROTO_INET6 d"
  by (auto simp add: defs_ok_def avahiProtocolToIpVer_def)

text \<open>
  C7. \<open>add_result\<close> is the only function that stores a result. For a uuid that is not
  empty it stores, under the key of the service, the URL \<^verbatim>\<open>tcp://<addr>[%<ifIndex>]:<port>\<close>:
  the text of the address, then \<^verbatim>\<open>%\<close> and the decimal interface index if and only if the
  protocol of the key is \<^verbatim>\<open>AVAHI_PROTO_INET6\<close>, then a colon and the decimal port. With an
  address text free of \<^verbatim>\<open>%\<close> (as the library prints it), the URL holds a \<^verbatim>\<open>%\<close> if and
  only if the protocol is \<^verbatim>\<open>AVAHI_PROTO_INET6\<close>, which is when the stored IP version is
  \<^verbatim>\<open>SOAPY_REMOTE_IPVER_INET6\<close>; an entry of any other protocol has no zone suffix. The
  suffix of an interface index that is not negative is a run of digits that is not
  empty (\<^verbatim>\<open>%0\<close> for the index 0), and so is the port.
\<close>

theorem add_result_url_form:
  assumes "uuid \<noteq> []" and "defs_ok d" and "CHR ''%'' \<notin> set host"
  shows "RBT.lookup (results (add_result d interface protocol name type domain uuid host port s))
           (interface, protocol, name, type, domain) =
         Some (uuid, avahiProtocolToIpVer d protocol,
           ''tcp://'' @ host @
             (if protocol = AVAHI_PROTO_INET6 d then ''%'' @ to_string interface else []) @
             '':'' @ to_string (uint port)) \<and>
         (CHR ''%'' \<in> set (''tcp://'' @ host @
             (if protocol = AVAHI_PROTO_INET6 d then ''%'' @ to_string interface else []) @
             '':'' @ to_string (uint port)) \<longleftrightarrow> protocol = AVAHI_PROTO_INET6 d) \<and>
         (avahiProtocolToIpVer d protocol = SOAPY_REMOTE_IPVER_INET6 d \<longleftrightarrow>
            protocol = AVAHI_PROTO_INET6 d) \<and>
         (0 \<le> interface \<longrightarrow> list_all isdigit (to_string interface) \<and> to_string interface \<noteq> []) \<and>
         list_all isdigit (to_string (uint port))"
proof (intro conjI)
  show "RBT.lookup (results (add_result d interface protocol name type domain uuid host port s))
           (interface, protocol, name, type, domain) =
         Some (uuid, avahiProtocolToIpVer d protocol,
           ''tcp://'' @ host @
             (if protocol = AVAHI_PROTO_INET6 d then ''%'' @ to_string interface else []) @
             '':'' @ to_string (uint port))"
    using assms(1) by (simp add: results_add_result SoapyURL_toString_def)
  show "CHR ''%'' \<in> set (''tcp://'' @ host @
             (if protocol = AVAHI_PROTO_INET6 d then ''%'' @ to_string interface else []) @
             '':'' @ to_string (uint port)) \<longleftrightarrow> protocol = AVAHI_PROTO_INET6 d"
    using assms(3) to_string_no_percent [of "uint port"] by simp
  show "avahiProtocolToIpVer d protocol = SOAPY_REMOTE_IPVER_INET6 d \<longleftrightarrow>
            protocol = AVAHI_PROTO_INET6 d"
    using assms(2) by (rule avahiProtocolToIpVer_inet6)
  show "0 \<le> interface \<longrightarrow> list_all isdigit (to_string interface) \<and> to_string interface \<noteq> []"
    by (simp add: to_string_digits)
  show "list_all isdigit (to_string (uint port))"
    by (simp add: to_string_digits)
qed

lemma url_v6_interface_0:
  "''tcp://'' @ ''fe80::1'' @ (if (1::int) = AVAHI_PROTO_INET6 example_defs then ''%'' @ to_string 0 else []) @
     '':'' @ to_string (uint (55132 :: 16 word)) = ''tcp://fe80::1%0:55132''"
  by code_simp

theorem add_result_url_form_witness:
  "''A'' \<noteq> [] \<and> defs_ok example_defs \<and> CHR ''%'' \<notin> set ''fe80::1'' \<and>
   RBT.lookup (results (add_result example_defs 0 1 ''SoapyRemote @ peer'' ''_soapy._tcp'' ''local''
       ''A'' ''fe80::1'' 55132 example_session))
     (0, 1, ''SoapyRemote @ peer'', ''_soapy._tcp'', ''local'') =
     Some (''A'', 6, ''tcp://fe80::1%0:55132'')"
proof -
  have h1: "''A'' \<noteq> []" by simp
  have h3: "CHR ''%'' \<notin> set ''fe80::1''" by simp
  have v: "avahiProtocolToIpVer example_defs 1 = 6"
    by (simp add: avahiProtocolToIpVer_def example_defs_def)
  from add_result_url_form [OF h1 defs_ok_example h3, of 0 1 "''SoapyRemote @ peer''"
      "''_soapy._tcp''" "''local''" 55132 example_session]
  have "RBT.lookup (results (add_result example_defs 0 1 ''SoapyRemote @ peer'' ''_soapy._tcp'' ''local''
       ''A'' ''fe80::1'' 55132 example_session))
     (0, 1, ''SoapyRemote @ peer'', ''_soapy._tcp'', ''local'') =
     Some (''A'', avahiProtocolToIpVer example_defs 1,
       ''tcp://'' @ ''fe80::1'' @ (if (1::int) = AVAHI_PROTO_INET6 example_defs then ''%'' @ to_string 0 else []) @
       '':'' @ to_string (uint (55132 :: 16 word)))"
    by blast
  with h1 h3 defs_ok_example show ?thesis
    by (simp only: url_v6_interface_0 v simp_thms)
qed

subsection \<open>\<open>registerService\<close> with a port that is not a number\<close>

lemma atoi_digits_no_digit: "cs = [] \<or> \<not> isdigit (hd cs) \<Longrightarrow> atoi_digits acc cs = acc"
  by (cases cs) auto

lemma strtol_no_prefix:
  assumes "\<not> numeric_prefix s"
  shows "strtol s = 0"
proof (cases "dropWhile isspace s")
  case Nil
  show ?thesis by (simp only: strtol_def Nil list.case Let_def) simp
next
  case (Cons c cs)
  show ?thesis
  proof (cases "c = CHR ''-'' \<or> c = CHR ''+''")
    case True
    with assms Cons have "cs = [] \<or> \<not> isdigit (hd cs)"
      by (auto simp add: numeric_prefix_def split: list.splits)
    then have "atoi_digits 0 cs = 0"
      by (rule atoi_digits_no_digit)
    with True show ?thesis
      by (auto simp add: strtol_def Cons Let_def simp del: atoi_digits.simps)
  next
    case False
    with assms Cons have "\<not> isdigit c"
      by (simp add: numeric_prefix_def)
    then have "atoi_digits 0 (c # cs) = 0"
      by simp
    with False show ?thesis
      by (simp add: strtol_def Cons Let_def del: atoi_digits.simps)
  qed
qed

lemma atoi_no_prefix: "\<not> numeric_prefix s \<Longrightarrow> atoi s = 0"
  by (simp add: atoi_def strtol_no_prefix)

lemma NUL_plain: "\<not> isspace (CHR 0x00) \<and> \<not> isdigit (CHR 0x00) \<and> CHR 0x00 \<noteq> CHR ''-'' \<and> CHR 0x00 \<noteq> CHR ''+''"
  by (simp add: isspace_def isdigit_def)

lemma dropWhile_isspace_c_str: "dropWhile isspace (c_str s) = c_str (dropWhile isspace s)"
  unfolding c_str_def
  by (induction s) (auto simp add: NUL_plain)

lemma numeric_prefix_c_str: "numeric_prefix (c_str s) = numeric_prefix s"
proof (cases "dropWhile isspace s")
  case Nil
  show ?thesis
    by (simp only: numeric_prefix_def dropWhile_isspace_c_str Nil) (simp add: c_str_def)
next
  case (Cons c cs)
  have nd: "\<not> isdigit (CHR 0x00)"
    by (simp add: isdigit_def)
  show ?thesis
    unfolding numeric_prefix_def dropWhile_isspace_c_str Cons
    by (cases cs) (auto simp add: c_str_def nd)
qed

lemma port_no_prefix:
  "\<not> numeric_prefix service \<Longrightarrow> svc_port (service_of d c uuid service ipVer) = 0"
  by (simp add: service_of_def atoi_no_prefix numeric_prefix_c_str)

lemma registerService_refused:
  assumes "client s = Some c" and "refused env (service_of d c uuid service ipVer)"
  shows "\<exists>s' fmt args. registerService d env uuid service ipVer s = Inr s' \<and>
           logged s' = logged s @ [(SOAPY_SDR_ERROR, fmt, args)] \<and>
           map_option committed (group s') \<noteq> Some True \<and>
           threads s' = threads s \<and> pollThread s' = pollThread s"
  using assms
  by (auto simp add: registerService_def refused_def Let_def logf_def)

lemma registerService_accepted:
  assumes "client s = Some c" and "\<not> refused env (service_of d c uuid service ipVer)"
  shows "\<exists>s'. registerService d env uuid service ipVer s = Inr s' \<and>
           logged s' = logged s \<and>
           group s' = Some \<lparr>services = [service_of d c uuid service ipVer], committed = True\<rparr> \<and>
           threads s' = Suc (threads s)"
  using assms
  by (auto simp add: registerService_def refused_def Let_def logf_def start_poll_thread_def)

text \<open>
  C4, as the claim states it, fails: the code hands the port 0 to the daemon without a test
  of its own, and logs only what the daemon refuses. With a daemon that accepts the
  service, an empty port string and the port string \<^verbatim>\<open>abc\<close> both end with nothing
  logged and a committed service on the port 0.
\<close>

theorem registerService_bad_port_counterexample:
  "(case registerService example_defs accepting_publish ''A'' [] 4 example_session of
      Inl f \<Rightarrow> False
    | Inr s' \<Rightarrow>
        logged s' = [] \<and>
        group s' = Some \<lparr>services = [\<lparr>svc_protocol = 0, svc_name = ''SoapyRemote @ radio'',
          svc_type = ''_soapy._tcp'', svc_port = 0, svc_txt = [(''uuid'', ''A'')]\<rparr>],
          committed = True\<rparr>) \<and>
   (case registerService example_defs accepting_publish ''A'' ''abc'' 4 example_session of
      Inl f \<Rightarrow> False
    | Inr s' \<Rightarrow>
        logged s' = [] \<and>
        group s' = Some \<lparr>services = [\<lparr>svc_protocol = 0, svc_name = ''SoapyRemote @ radio'',
          svc_type = ''_soapy._tcp'', svc_port = 0, svc_txt = [(''uuid'', ''A'')]\<rparr>],
          committed = True\<rparr>)"
  by code_simp

text \<open>
  C4, amended. For a port string without a leading numeric prefix (after optional white
  space and an optional sign no decimal digit follows; the empty string, \<^verbatim>\<open>abc\<close>,
  \<^verbatim>\<open>abc12\<close> and \<^verbatim>\<open>- 5\<close> are such strings) and a session with a client, the port handed
  to the daemon is 0 and \<open>registerService\<close> returns normally. If the daemon refuses the
  registration (no entry group, or a return code other than 0 from the add or the commit),
  exactly one entry is logged, at the level of an error, no committed group exists and no
  thread is started. Otherwise nothing is logged, the service is committed with the port 0
  and the poll thread is started.
\<close>

theorem registerService_non_numeric_port:
  assumes "\<not> numeric_prefix service" and "client s = Some c"
  shows "svc_port (service_of d c uuid service ipVer) = 0 \<and>
         (\<exists>s'. registerService d env uuid service ipVer s = Inr s') \<and>
         (refused env (service_of d c uuid service ipVer) \<longrightarrow>
            (\<exists>s' fmt args. registerService d env uuid service ipVer s = Inr s' \<and>
               logged s' = logged s @ [(SOAPY_SDR_ERROR, fmt, args)] \<and>
               map_option committed (group s') \<noteq> Some True \<and>
               threads s' = threads s \<and> pollThread s' = pollThread s)) \<and>
         (\<not> refused env (service_of d c uuid service ipVer) \<longrightarrow>
            (\<exists>s'. registerService d env uuid service ipVer s = Inr s' \<and>
               logged s' = logged s \<and>
               group s' = Some \<lparr>services = [service_of d c uuid service ipVer], committed = True\<rparr> \<and>
               threads s' = Suc (threads s)))"
proof (intro conjI impI)
  show "svc_port (service_of d c uuid service ipVer) = 0"
    using assms(1) by (rule port_no_prefix)
  show "\<exists>s'. registerService d env uuid service ipVer s = Inr s'"
    using registerService_refused [OF assms(2), of env d uuid service ipVer]
      registerService_accepted [OF assms(2), of env d uuid service ipVer]
    by blast
next
  assume "refused env (service_of d c uuid service ipVer)"
  with assms(2) show "\<exists>s' fmt args. registerService d env uuid service ipVer s = Inr s' \<and>
               logged s' = logged s @ [(SOAPY_SDR_ERROR, fmt, args)] \<and>
               map_option committed (group s') \<noteq> Some True \<and>
               threads s' = threads s \<and> pollThread s' = pollThread s"
    by (rule registerService_refused)
next
  assume "\<not> refused env (service_of d c uuid service ipVer)"
  with assms(2) show "\<exists>s'. registerService d env uuid service ipVer s = Inr s' \<and>
               logged s' = logged s \<and>
               group s' = Some \<lparr>services = [service_of d c uuid service ipVer], committed = True\<rparr> \<and>
               threads s' = Suc (threads s)"
    by (rule registerService_accepted)
qed

lemma abc12_no_prefix: "\<not> numeric_prefix ''abc12''"
  by (simp add: numeric_prefix_def isspace_def isdigit_def)

lemma client_example_session: "client example_session = Some example_client"
  by (simp add: example_session_def client_ctor)

lemma logged_example_session: "logged example_session = []"
  by (simp add: example_session_def SoapyDNSSDImpl_ctor_def SoapyDNSSDImpl_init_def)

theorem registerService_non_numeric_port_witness:
  "\<not> numeric_prefix ''abc12'' \<and> client example_session = Some example_client \<and>
   svc_port (service_of example_defs example_client ''A'' ''abc12'' 4) = 0 \<and>
   refused refusing_publish (service_of example_defs example_client ''A'' ''abc12'' 4) \<and>
   (\<exists>s' fmt args.
      registerService example_defs refusing_publish ''A'' ''abc12'' 4 example_session = Inr s' \<and>
      logged s' = [(SOAPY_SDR_ERROR, fmt, args)] \<and>
      map_option committed (group s') \<noteq> Some True \<and> threads s' = 0)"
proof -
  note inst = registerService_non_numeric_port [OF abc12_no_prefix client_example_session,
      of example_defs "''A''" 4 refusing_publish]
  from inst have port: "svc_port (service_of example_defs example_client ''A'' ''abc12'' 4) = 0"
    by blast
  then have ref: "refused refusing_publish (service_of example_defs example_client ''A'' ''abc12'' 4)"
    by (simp add: refused_def refusing_publish_def)
  with inst obtain s' fmt args where
    "registerService example_defs refusing_publish ''A'' ''abc12'' 4 example_session = Inr s'"
    "logged s' = logged example_session @ [(SOAPY_SDR_ERROR, fmt, args)]"
    "map_option committed (group s') \<noteq> Some True"
    "threads s' = threads example_session"
    by blast
  moreover have "threads example_session = 0"
    by (simp add: example_session_def SoapyDNSSDImpl_ctor_def SoapyDNSSDImpl_init_def)
  ultimately have "\<exists>s' fmt args.
      registerService example_defs refusing_publish ''A'' ''abc12'' 4 example_session = Inr s' \<and>
      logged s' = [(SOAPY_SDR_ERROR, fmt, args)] \<and>
      map_option committed (group s') \<noteq> Some True \<and> threads s' = 0"
    by (simp add: logged_example_session)
  with abc12_no_prefix client_example_session port ref show ?thesis
    by blast
qed

end
